theory Spec2Isabelle
  imports Complex_Main
begin

section \<open>Page-fit geometry of \<open>resize_pdf_to_b5\<close> (main.py)\<close>

text \<open>
  The module constants of main.py, lines 14 to 16. Python computes them in binary floating
  point; the model computes them over the reals, so every statement below is about exact
  arithmetic.
\<close>

definition B5_W_MM :: real where
  "B5_W_MM = 182"

definition B5_H_MM :: real where
  "B5_H_MM = 257"

definition MM_TO_PT :: real where
  "MM_TO_PT = 72 / 25.4"

definition B5_W_PT :: real where
  "B5_W_PT = B5_W_MM * MM_TO_PT"

definition B5_H_PT :: real where
  "B5_H_PT = B5_H_MM * MM_TO_PT"

text \<open>
  The exceptions the model distinguishes. \<open>ZeroDivisionError\<close> is raised by the two
  divisions of line 25, \<open>ValueError\<close> by \<open>Path.with_name\<close>; \<open>DocumentOpenError\<close> and
  \<open>WriteError\<close> wrap whatever the PDF library raises from \<open>fitz.open\<close> and from
  \<open>Document.save\<close>, with the library's message. All of them are subclasses of Python's
  \<open>Exception\<close>.
\<close>

datatype error =
    ZeroDivisionError
  | ValueError
  | DocumentOpenError string
  | WriteError string

text \<open>
  A source page as the loop reads it: \<open>sp.rect.width\<close> and \<open>sp.rect.height\<close>. Its content
  is identified by its page number, the position in the source document.
\<close>

record src_page =
  width :: real
  height :: real

text \<open>\<open>fitz.Rect(x0, y0, x1, y1)\<close>.\<close>

record rect =
  rx0 :: real
  ry0 :: real
  rx1 :: real
  ry1 :: real

text \<open>
  The values the loop body computes for one page, lines 25 to 28: the scale \<open>s\<close>, the scaled
  size \<open>dw, dh\<close>, the offsets \<open>x0, y0\<close> and the rectangle \<open>dest\<close>.
\<close>

record fit_transform =
  scale :: real
  dw :: real
  dh :: real
  x0 :: real
  y0 :: real
  dest :: rect

text \<open>
  Lines 25 to 28. Python evaluates \<open>B5_W_PT / r.width\<close> first and \<open>B5_H_PT / r.height\<close>
  second; either raises \<open>ZeroDivisionError\<close> on a zero divisor, and nothing guards them.
\<close>

definition fit :: "src_page \<Rightarrow> error + fit_transform" where
  "fit sp =
     (if width sp = 0 then Inl ZeroDivisionError
      else if height sp = 0 then Inl ZeroDivisionError
      else
        let s = min (B5_W_PT / width sp) (B5_H_PT / height sp);
            w = width sp * s;
            h = height sp * s;
            x = (B5_W_PT - w) / 2;
            y = (B5_H_PT - h) / 2
        in Inr \<lparr>scale = s, dw = w, dh = h, x0 = x, y0 = y,
                dest = \<lparr>rx0 = x, ry0 = y, rx1 = x + w, ry1 = y + h\<rparr>\<rparr>)"

section \<open>Documents and the calls into the PDF library\<close>

text \<open>
  What \<open>show_pdf_page(dest, src, sp.number, keep_proportion=True)\<close> draws into a page: the
  target rectangle, the number of the source page, and the flag.
\<close>

record placement =
  target :: rect
  pno :: nat
  keep_proportion :: bool

text \<open>
  A page of the destination document: the size given to \<open>new_page\<close> and what has been
  drawn into it (\<open>None\<close> for a page just created).
\<close>

record dst_page =
  page_width :: real
  page_height :: real
  shown :: "placement option"

text \<open>
  A file-system path as the program uses \<open>pathlib.Path\<close>: the final component \<open>name\<close> and
  everything before it (\<open>parent\<close>, kept as the text \<open>str(p.parent)\<close>).
\<close>

record path =
  parent :: string
  name :: string

text \<open>
  The one answer of \<open>QMessageBox.question\<close> the program tests for is \<open>Yes\<close>; every other
  way of leaving the dialog is \<open>No\<close>.
\<close>

datatype button = Yes | No

text \<open>
  Everything outside the program that a run depends on: which paths exist
  (\<open>Path.exists\<close>), what \<open>fitz.open(str(path))\<close> gives for a path (the pages of the
  document, or the library's error message), whether \<open>Document.save\<close> of a document to a
  path fails (\<open>Some\<close> message) or not, and what the user answers to the overwrite question
  shown for a file name.
\<close>

record env =
  path_exists :: "path \<Rightarrow> bool"
  fitz_open :: "path \<Rightarrow> string + src_page list"
  doc_save :: "path \<Rightarrow> dst_page list \<Rightarrow> string option"
  question_answer :: "string \<Rightarrow> button"

text \<open>
  The calls \<open>resize_pdf_to_b5\<close> makes that reach outside the process: \<open>fitz.open(path)\<close>
  reads a file, \<open>fitz.open()\<close> creates the empty destination document, \<open>dst.save(path)\<close>
  writes a file. The program contains no other call that reads or writes a file, and no call
  of \<open>Document.close\<close>.
\<close>

datatype lib_call =
    Fitz_open path
  | Fitz_new
  | Doc_save path "dst_page list"

datatype doc_handle = Src_doc | Dst_doc

text \<open>
  The state threaded through the operation: the library calls made so far and the document
  handles that have been opened and not closed.
\<close>

record lib_state =
  calls :: "lib_call list"
  open_docs :: "doc_handle list"

text \<open>Line 20: \<open>src = fitz.open(str(input_path))\<close>. A failed open leaves no handle.\<close>

definition open_src :: "env \<Rightarrow> path \<Rightarrow> lib_state \<Rightarrow> (error + src_page list) \<times> lib_state" where
  "open_src e p st =
     (case fitz_open e p of
        Inl m \<Rightarrow> (Inl (DocumentOpenError m), st\<lparr>calls := calls st @ [Fitz_open p]\<rparr>)
      | Inr src \<Rightarrow>
          (Inr src, st\<lparr>calls := calls st @ [Fitz_open p], open_docs := open_docs st @ [Src_doc]\<rparr>))"

text \<open>Line 21: \<open>dst = fitz.open()\<close>.\<close>

definition open_dst :: "lib_state \<Rightarrow> lib_state" where
  "open_dst st = st\<lparr>calls := calls st @ [Fitz_new], open_docs := open_docs st @ [Dst_doc]\<rparr>"

text \<open>
  Lines 22 to 29, the loop over the source pages. \<open>n\<close> is \<open>sp.number\<close>, the index of the page
  in the source document, and \<open>dst\<close> the pages of the destination so far. \<open>new_page\<close> appends
  a page of the B5 size; the division of line 25 may raise, which ends the operation (the
  page just appended is lost with the unsaved document).
\<close>

fun pages_loop :: "src_page list \<Rightarrow> nat \<Rightarrow> dst_page list \<Rightarrow> error + dst_page list" where
  "pages_loop [] n dst = Inr dst"
| "pages_loop (sp # rest) n dst =
     (let newp = \<lparr>page_width = B5_W_PT, page_height = B5_H_PT, shown = None\<rparr>
      in case fit sp of
           Inl e \<Rightarrow> Inl e
         | Inr ft \<Rightarrow>
             pages_loop rest (Suc n)
               (dst @ [newp\<lparr>shown := Some \<lparr>target = dest ft, pno = n, keep_proportion = True\<rparr>\<rparr>]))"

text \<open>Line 30: \<open>dst.save(str(output_path))\<close>.\<close>

definition save_dst :: "env \<Rightarrow> path \<Rightarrow> dst_page list \<Rightarrow> lib_state \<Rightarrow> (error + unit) \<times> lib_state" where
  "save_dst e p dst st =
     ((case doc_save e p dst of Some m \<Rightarrow> Inl (WriteError m) | None \<Rightarrow> Inr ()),
      st\<lparr>calls := calls st @ [Doc_save p dst]\<rparr>)"

text \<open>
  \<open>resize_pdf_to_b5\<close>, lines 19 to 30: the result (\<open>Inl\<close> the exception that leaves the
  function, \<open>Inr ()\<close> a normal return) and the library state at that moment, starting from no
  call made and no handle open.
\<close>

definition resize_pdf_to_b5 :: "env \<Rightarrow> path \<Rightarrow> path \<Rightarrow> (error + unit) \<times> lib_state" where
  "resize_pdf_to_b5 e input_path output_path =
     (case open_src e input_path \<lparr>calls = [], open_docs = []\<rparr> of
        (Inl err, st1) \<Rightarrow> (Inl err, st1)
      | (Inr src, st1) \<Rightarrow>
          (let st2 = open_dst st1
           in case pages_loop src 0 [] of
                Inl err \<Rightarrow> (Inl err, st2)
              | Inr dst \<Rightarrow> save_dst e output_path dst st2))"

section \<open>Paths and strings\<close>

text \<open>
  \<open>str.rfind\<close> for one character: the index of its last occurrence, \<open>None\<close> for
  Python's \<open>-1\<close>.
\<close>

fun rfind :: "string \<Rightarrow> char \<Rightarrow> nat option" where
  "rfind [] c = None"
| "rfind (x # xs) c =
     (case rfind xs c of
        Some i \<Rightarrow> Some (Suc i)
      | None \<Rightarrow> if x = c then Some 0 else None)"

text \<open>
  \<open>PurePath.suffix\<close> and \<open>PurePath.stem\<close>: with \<open>i = name.rfind('.')\<close>, the name splits at
  \<open>i\<close> when \<open>0 < i < len(name) - 1\<close>; otherwise the suffix is empty and the stem is the
  whole name.
\<close>

definition suffix :: "path \<Rightarrow> string" where
  "suffix p =
     (case rfind (name p) (CHR ''.'') of
        Some i \<Rightarrow> if 0 < i \<and> Suc i < length (name p) then drop i (name p) else []
      | None \<Rightarrow> [])"

definition stem :: "path \<Rightarrow> string" where
  "stem p =
     (case rfind (name p) (CHR ''.'') of
        Some i \<Rightarrow> if 0 < i \<and> Suc i < length (name p) then take i (name p) else name p
      | None \<Rightarrow> name p)"

text \<open>
  \<open>PurePath.with_name\<close> (POSIX flavour): \<open>ValueError\<close> when the path has an empty name or
  when the new name is empty, contains the separator or is a single dot; otherwise the
  final component is replaced and the rest of the path is kept.
\<close>

definition with_name :: "path \<Rightarrow> string \<Rightarrow> error + path" where
  "with_name p n =
     (if name p = [] then Inl ValueError
      else if n = [] \<or> CHR ''/'' \<in> set n \<or> n = ''.'' then Inl ValueError
      else Inr (p\<lparr>name := n\<rparr>))"

text \<open>
  \<open>str.lower\<close> and \<open>str.strip\<close> on the characters the model has (bytes): the letters A to
  Z are lowered, the ASCII white space characters are stripped from both ends.
\<close>

definition lower_char :: "char \<Rightarrow> char" where
  "lower_char c =
     (case map_of (zip ''ABCDEFGHIJKLMNOPQRSTUVWXYZ'' ''abcdefghijklmnopqrstuvwxyz'') c of
        Some l \<Rightarrow> l
      | None \<Rightarrow> c)"

definition lower :: "string \<Rightarrow> string" where
  "lower s = map lower_char s"

definition isspace :: "char \<Rightarrow> bool" where
  "isspace c =
     (c \<in> set [CHR 0x09, CHR 0x0A, CHR 0x0B, CHR 0x0C, CHR 0x0D,
                CHR 0x1C, CHR 0x1D, CHR 0x1E, CHR 0x1F, CHR '' ''])"

definition strip :: "string \<Rightarrow> string" where
  "strip s = rev (dropWhile isspace (rev (dropWhile isspace s)))"

section \<open>The interactive shell: \<open>MainWindow\<close>\<close>

text \<open>
  The two fields of the window that the handlers read and write. The input field is
  read-only and is written by \<open>set_input_file\<close> alone, with \<open>str(p)\<close> of a path, which is
  never empty and which \<open>Path\<close> parses back to \<open>p\<close>: it is modelled as \<open>None\<close> for the empty
  text and \<open>Some p\<close> otherwise. The output-name field holds what the user typed or what
  \<open>refresh_default_output\<close> put there.
\<close>

record main_window =
  input_edit :: "path option"
  output_name_edit :: string

text \<open>
  \<open>self.size_combo.currentData()\<close>: the combo box has the single item added at lines 76
  and 77, whose data is the triple below.
\<close>

definition currentData :: "string \<times> real \<times> real" where
  "currentData = (''B5'', B5_W_PT, B5_H_PT)"

text \<open>
  The format string of lines 124 and 139, \<open>{stem}_{label}.pdf\<close>, with the stem of the
  input path.
\<close>

definition default_name :: "path \<Rightarrow> string \<Rightarrow> string" where
  "default_name in_path label = stem in_path @ ''_'' @ label @ ''.pdf''"

text \<open>
  Lines 117 to 126. The default name is computed for every input path, and written to the
  output-name field only when that field is empty.
\<close>

definition refresh_default_output :: "main_window \<Rightarrow> main_window" where
  "refresh_default_output w =
     (case input_edit w of
        None \<Rightarrow> w
      | Some in_path \<Rightarrow>
          (let label = fst currentData;
               default = default_name in_path label
           in if output_name_edit w = [] then w\<lparr>output_name_edit := default\<rparr> else w))"

text \<open>Lines 113 to 115.\<close>

definition set_input_file :: "path \<Rightarrow> main_window \<Rightarrow> main_window" where
  "set_input_file p w = refresh_default_output (w\<lparr>input_edit := Some p\<rparr>)"

text \<open>
  The message boxes of \<open>run\<close>, by kind and content: the warning that no input is given
  (line 130), the error that the input is not a valid PDF file (line 134), the overwrite
  question with the output file's name (line 145), the failure message with the exception
  formatted into it (line 152), and the completion message with the output path (line 155).
\<close>

datatype dialog =
    Warning_no_input
  | Critical_invalid_pdf
  | Question_overwrite string
  | Critical_failed error
  | Information_saved path

datatype event = Dialog dialog | Lib lib_call

text \<open>
  Lines 137 to 141: the output name is the stripped text of the output-name field, or the
  default name when that is empty, and the output path is the input path with its name
  replaced.
\<close>

definition out_path_of :: "main_window \<Rightarrow> path \<Rightarrow> error + path" where
  "out_path_of w in_path =
     (let label = fst currentData;
          out_name = (if strip (output_name_edit w) \<noteq> [] then strip (output_name_edit w)
                      else default_name in_path label)
      in with_name in_path out_name)"

text \<open>
  \<open>MainWindow.run\<close>, lines 128 to 155: the message boxes shown and library calls made, in
  order, and the exception that leaves the handler, if any (\<open>None\<close> for a normal return).
  The \<open>try\<close> of lines 149 to 153 catches \<open>Exception\<close>, which covers every value of
  \<open>error\<close>; \<open>with_name\<close> is called outside of it.
\<close>

record run_result =
  events :: "event list"
  raised :: "error option"

definition run :: "env \<Rightarrow> main_window \<Rightarrow> run_result" where
  "run e w =
     (case input_edit w of
        None \<Rightarrow> \<lparr>events = [Dialog Warning_no_input], raised = None\<rparr>
      | Some in_path \<Rightarrow>
          if \<not> path_exists e in_path \<or> lower (suffix in_path) \<noteq> ''.pdf''
          then \<lparr>events = [Dialog Critical_invalid_pdf], raised = None\<rparr>
          else
            (case out_path_of w in_path of
               Inl err \<Rightarrow> \<lparr>events = [], raised = Some err\<rparr>
             | Inr out_path \<Rightarrow>
                 (let asked = (if path_exists e out_path
                               then [Dialog (Question_overwrite (name out_path))] else [])
                  in if path_exists e out_path \<and> question_answer e (name out_path) \<noteq> Yes
                     then \<lparr>events = asked, raised = None\<rparr>
                     else
                       (case resize_pdf_to_b5 e in_path out_path of
                          (Inl err, st) \<Rightarrow>
                            \<lparr>events = asked @ map Lib (calls st) @ [Dialog (Critical_failed err)],
                             raised = None\<rparr>
                        | (Inr u, st) \<Rightarrow>
                            \<lparr>events = asked @ map Lib (calls st) @ [Dialog (Information_saved out_path)],
                             raised = None\<rparr>))))"

section \<open>Concrete inputs\<close>

text \<open>
  A directory holding a two-page document \<open>scan.PDF\<close> (an A4 page and a US-letter page),
  a file \<open>notes.txt\<close> and an earlier output \<open>scan_B5.pdf\<close>; saving succeeds and the user
  declines to overwrite.
\<close>

definition page_a4 :: src_page where
  "page_a4 = \<lparr>width = 595, height = 842\<rparr>"

definition page_letter :: src_page where
  "page_letter = \<lparr>width = 612, height = 792\<rparr>"

definition page_flat :: src_page where
  "page_flat = \<lparr>width = 612, height = 0\<rparr>"

definition scan_pdf :: path where
  "scan_pdf = \<lparr>parent = ''/home/user/docs'', name = ''scan.PDF''\<rparr>"

definition scan_b5_pdf :: path where
  "scan_b5_pdf = \<lparr>parent = ''/home/user/docs'', name = ''scan_B5.pdf''\<rparr>"

definition flat_pdf :: path where
  "flat_pdf = \<lparr>parent = ''/home/user/docs'', name = ''flat.pdf''\<rparr>"

definition broken_pdf :: path where
  "broken_pdf = \<lparr>parent = ''/home/user/docs'', name = ''broken.pdf''\<rparr>"

definition notes_txt :: path where
  "notes_txt = \<lparr>parent = ''/home/user/docs'', name = ''notes.txt''\<rparr>"

definition env0 :: env where
  "env0 =
     \<lparr>path_exists = (\<lambda>p. p = scan_pdf \<or> p = scan_b5_pdf \<or> p = flat_pdf \<or> p = broken_pdf
                        \<or> p = notes_txt),
      fitz_open = (\<lambda>p. if p = scan_pdf then Inr [page_a4, page_letter]
                        else if p = flat_pdf then Inr [page_a4, page_flat]
                        else Inl ''cannot open file''),
      doc_save = (\<lambda>p d. None),
      question_answer = (\<lambda>n. No)\<rparr>"

text \<open>The window as it starts, and with an input selected and the output name left blank.\<close>

definition win0 :: main_window where
  "win0 = \<lparr>input_edit = None, output_name_edit = []\<rparr>"

definition win_of :: "path \<Rightarrow> main_window" where
  "win_of p = \<lparr>input_edit = Some p, output_name_edit = []\<rparr>"

section \<open>The fit transform\<close>

lemma B5_W_PT_pos: "0 < B5_W_PT"
  by (simp add: B5_W_PT_def B5_W_MM_def MM_TO_PT_def)

lemma B5_H_PT_pos: "0 < B5_H_PT"
  by (simp add: B5_H_PT_def B5_H_MM_def MM_TO_PT_def)

lemma fit_defined:
  assumes "width sp \<noteq> 0" and "height sp \<noteq> 0"
  shows "fit sp =
    Inr \<lparr>scale = min (B5_W_PT / width sp) (B5_H_PT / height sp),
         dw = width sp * min (B5_W_PT / width sp) (B5_H_PT / height sp),
         dh = height sp * min (B5_W_PT / width sp) (B5_H_PT / height sp),
         x0 = (B5_W_PT - width sp * min (B5_W_PT / width sp) (B5_H_PT / height sp)) / 2,
         y0 = (B5_H_PT - height sp * min (B5_W_PT / width sp) (B5_H_PT / height sp)) / 2,
         dest = \<lparr>rx0 = (B5_W_PT - width sp * min (B5_W_PT / width sp) (B5_H_PT / height sp)) / 2,
                 ry0 = (B5_H_PT - height sp * min (B5_W_PT / width sp) (B5_H_PT / height sp)) / 2,
                 rx1 = (B5_W_PT - width sp * min (B5_W_PT / width sp) (B5_H_PT / height sp)) / 2
                       + width sp * min (B5_W_PT / width sp) (B5_H_PT / height sp),
                 ry1 = (B5_H_PT - height sp * min (B5_W_PT / width sp) (B5_H_PT / height sp)) / 2
                       + height sp * min (B5_W_PT / width sp) (B5_H_PT / height sp)\<rparr>\<rparr>"
  using assms by (simp add: fit_def Let_def)

lemma scaled_width_le:
  fixes W H Tw Th :: real
  assumes "0 < W"
  shows "W * min (Tw / W) (Th / H) \<le> Tw"
proof -
  have "W * min (Tw / W) (Th / H) \<le> W * (Tw / W)"
    using assms by (intro mult_left_mono) simp_all
  also have "\<dots> = Tw"
    using assms by simp
  finally show ?thesis .
qed

lemma scaled_height_le:
  fixes W H Tw Th :: real
  assumes "0 < H"
  shows "H * min (Tw / W) (Th / H) \<le> Th"
proof -
  have "H * min (Tw / W) (Th / H) \<le> H * (Th / H)"
    using assms by (intro mult_left_mono) simp_all
  also have "\<dots> = Th"
    using assms by simp
  finally show ?thesis .
qed

lemma scaled_touches:
  fixes W H Tw Th :: real
  assumes "0 < W" and "0 < H"
  shows "W * min (Tw / W) (Th / H) = Tw \<or> H * min (Tw / W) (Th / H) = Th"
proof (cases "Tw / W \<le> Th / H")
  case True
  then have "min (Tw / W) (Th / H) = Tw / W"
    by simp
  with assms show ?thesis
    by simp
next
  case False
  then have "min (Tw / W) (Th / H) = Th / H"
    by simp
  with assms show ?thesis
    by simp
qed

text \<open>
  C1. For a source page of width W > 0 and height H > 0 the loop body computes the scale
  s = min (Tw / W) (Th / H) against the fixed B5 target (Tw, Th); the scaled page fits,
  W * s <= Tw and H * s <= Th, and it touches the target on at least one axis.
\<close>

theorem fit_scale_fits:
  assumes "0 < width sp" and "0 < height sp"
  shows "\<exists>ft. fit sp = Inr ft
           \<and> scale ft = min (B5_W_PT / width sp) (B5_H_PT / height sp)
           \<and> width sp * scale ft \<le> B5_W_PT
           \<and> height sp * scale ft \<le> B5_H_PT
           \<and> (width sp * scale ft = B5_W_PT \<or> height sp * scale ft = B5_H_PT)"
proof -
  let ?s = "min (B5_W_PT / width sp) (B5_H_PT / height sp)"
  from assms have nz: "width sp \<noteq> 0" "height sp \<noteq> 0"
    by simp_all
  obtain ft where ft: "fit sp = Inr ft" and s: "scale ft = ?s"
    using fit_defined [OF nz] by simp
  have "width sp * ?s \<le> B5_W_PT"
    by (rule scaled_width_le [OF assms(1)])
  moreover have "height sp * ?s \<le> B5_H_PT"
    by (rule scaled_height_le [OF assms(2)])
  moreover have "width sp * ?s = B5_W_PT \<or> height sp * ?s = B5_H_PT"
    by (rule scaled_touches [OF assms])
  ultimately show ?thesis
    using ft s by simp
qed

theorem fit_scale_fits_witness:
  "0 < width page_a4 \<and> 0 < height page_a4
   \<and> (\<exists>ft. fit page_a4 = Inr ft
          \<and> scale ft = 46260 / 53467
          \<and> width page_a4 * scale ft \<le> B5_W_PT
          \<and> height page_a4 * scale ft = B5_H_PT)"
proof -
  have pos: "0 < width page_a4" "0 < height page_a4"
    by (simp_all add: page_a4_def)
  have s: "min (B5_W_PT / width page_a4) (B5_H_PT / height page_a4) = 46260 / 53467"
    by (simp add: page_a4_def B5_W_PT_def B5_H_PT_def B5_W_MM_def B5_H_MM_def MM_TO_PT_def)
  have h: "height page_a4 * (46260 / 53467) = B5_H_PT"
    by (simp add: page_a4_def B5_H_PT_def B5_H_MM_def MM_TO_PT_def)
  from fit_scale_fits [OF pos] obtain ft where
    a: "fit page_a4 = Inr ft" and
    b: "scale ft = min (B5_W_PT / width page_a4) (B5_H_PT / height page_a4)" and
    c: "width page_a4 * scale ft \<le> B5_W_PT"
    by blast
  have sc: "scale ft = 46260 / 53467"
    unfolding b by (rule s)
  have hh: "height page_a4 * scale ft = B5_H_PT"
    unfolding sc by (rule h)
  from pos a sc c hh show ?thesis
    by blast
qed



section \<open>The page loop and the resize operation\<close>

lemma pages_loop_length:
  "pages_loop src n dst = Inr out \<Longrightarrow> length out = length dst + length src"
proof (induction src arbitrary: n dst)
  case Nil
  then show ?case by simp
next
  case (Cons sp rest)
  then show ?case
    by (fastforce simp: Let_def split: sum.splits)
qed

lemma pages_loop_prefix:
  "pages_loop src n dst = Inr out \<Longrightarrow> take (length dst) out = dst"
proof (induction src arbitrary: n dst)
  case Nil
  then show ?case by simp
next
  case (Cons sp rest)
  from Cons.prems obtain ft where
    ft: "fit sp = Inr ft" and
    rec: "pages_loop rest (Suc n)
            (dst @ [\<lparr>page_width = B5_W_PT, page_height = B5_H_PT,
                     shown = Some \<lparr>target = dest ft, pno = n, keep_proportion = True\<rparr>\<rparr>]) = Inr out"
    by (auto simp: Let_def split: sum.splits)
  from Cons.IH [OF rec] have "take (Suc (length dst)) out =
      dst @ [\<lparr>page_width = B5_W_PT, page_height = B5_H_PT,
               shown = Some \<lparr>target = dest ft, pno = n, keep_proportion = True\<rparr>\<rparr>]"
    by simp
  then have "take (length dst) (take (Suc (length dst)) out) = dst"
    by simp
  then show ?case
    by (simp add: min_def)
qed

lemma pages_loop_nth:
  "pages_loop src n dst = Inr out \<Longrightarrow> i < length src \<Longrightarrow>
     \<exists>ft. fit (src ! i) = Inr ft
        \<and> out ! (length dst + i) =
            \<lparr>page_width = B5_W_PT, page_height = B5_H_PT,
             shown = Some \<lparr>target = dest ft, pno = n + i, keep_proportion = True\<rparr>\<rparr>"
proof (induction src arbitrary: n dst i)
  case Nil
  then show ?case by simp
next
  case (Cons sp rest)
  let ?page = "\<lambda>ft. \<lparr>page_width = B5_W_PT, page_height = B5_H_PT,
                       shown = Some \<lparr>target = dest ft, pno = n, keep_proportion = True\<rparr>\<rparr>"
  from Cons.prems(1) obtain ft where
    ft: "fit sp = Inr ft" and
    rec: "pages_loop rest (Suc n) (dst @ [?page ft]) = Inr out"
    by (auto simp: Let_def split: sum.splits)
  show ?case
  proof (cases i)
    case 0
    from pages_loop_prefix [OF rec] have "take (Suc (length dst)) out = dst @ [?page ft]"
      by simp
    then have "take (Suc (length dst)) out ! length dst = ?page ft"
      by simp
    then have "out ! length dst = ?page ft"
      by simp
    with ft 0 show ?thesis
      by simp
  next
    case (Suc j)
    with Cons.prems(2) have "j < length rest"
      by simp
    from Cons.IH [OF rec this] Suc show ?thesis
      by simp
  qed
qed

lemma pages_loop_raises:
  "pages_loop src n dst = Inl err \<longleftrightarrow>
     err = ZeroDivisionError \<and> (\<exists>sp \<in> set src. width sp = 0 \<or> height sp = 0)"
proof (induction src arbitrary: n dst)
  case Nil
  then show ?case by simp
next
  case (Cons sp rest)
  show ?case
  proof (cases "width sp = 0 \<or> height sp = 0")
    case True
    then have "fit sp = Inl ZeroDivisionError"
      by (auto simp: fit_def)
    with True show ?thesis
      by (auto simp: Let_def)
  next
    case False
    then obtain ft where "fit sp = Inr ft"
      by (auto simp: fit_def Let_def)
    with False Cons.IH show ?thesis
      by (simp add: Let_def)
  qed
qed

lemma resize_success:
  assumes "fst (resize_pdf_to_b5 e inp outp) = Inr u"
  shows "\<exists>src dst. fitz_open e inp = Inr src \<and> pages_loop src 0 [] = Inr dst
           \<and> doc_save e outp dst = None
           \<and> snd (resize_pdf_to_b5 e inp outp) =
               \<lparr>calls = [Fitz_open inp, Fitz_new, Doc_save outp dst],
                open_docs = [Src_doc, Dst_doc]\<rparr>"
  using assms
  by (auto simp: resize_pdf_to_b5_def open_src_def open_dst_def save_dst_def Let_def
           split: sum.splits option.splits)

lemma resize_opened:
  assumes "fitz_open e inp = Inr src"
  shows "resize_pdf_to_b5 e inp outp =
           (case pages_loop src 0 [] of
              Inl err \<Rightarrow> (Inl err, \<lparr>calls = [Fitz_open inp, Fitz_new],
                                     open_docs = [Src_doc, Dst_doc]\<rparr>)
            | Inr dst \<Rightarrow>
                ((case doc_save e outp dst of Some m \<Rightarrow> Inl (WriteError m) | None \<Rightarrow> Inr ()),
                 \<lparr>calls = [Fitz_open inp, Fitz_new, Doc_save outp dst],
                  open_docs = [Src_doc, Dst_doc]\<rparr>))"
  using assms
  by (simp add: resize_pdf_to_b5_def open_src_def open_dst_def save_dst_def Let_def
           split: sum.splits)

lemma resize_not_opened:
  assumes "fitz_open e inp = Inl m"
  shows "resize_pdf_to_b5 e inp outp =
           (Inl (DocumentOpenError m), \<lparr>calls = [Fitz_open inp], open_docs = []\<rparr>)"
  using assms by (simp add: resize_pdf_to_b5_def open_src_def)

text \<open>
  C3. Whenever the resize operation returns normally, the document it saved has exactly as
  many pages as the source document (whatever that number is, zero and one included), and
  its page number i shows page number i of the source, placed at the rectangle the fit
  computes from that source page.
\<close>

theorem resize_keeps_page_count_and_order:
  assumes "fst (resize_pdf_to_b5 e inp outp) = Inr ()"
  shows "\<exists>src dst. fitz_open e inp = Inr src
           \<and> calls (snd (resize_pdf_to_b5 e inp outp)) = [Fitz_open inp, Fitz_new, Doc_save outp dst]
           \<and> length dst = length src
           \<and> (\<forall>i < length src. \<exists>ft. fit (src ! i) = Inr ft
                 \<and> shown (dst ! i) = Some \<lparr>target = dest ft, pno = i, keep_proportion = True\<rparr>)"
proof -
  from resize_success [OF assms] obtain src dst where
    src: "fitz_open e inp = Inr src" and
    loop: "pages_loop src 0 [] = Inr dst" and
    st: "snd (resize_pdf_to_b5 e inp outp) =
           \<lparr>calls = [Fitz_open inp, Fitz_new, Doc_save outp dst], open_docs = [Src_doc, Dst_doc]\<rparr>"
    by blast
  have len: "length dst = length src"
    using pages_loop_length [OF loop] by simp
  have nth: "\<exists>ft. fit (src ! i) = Inr ft
               \<and> shown (dst ! i) = Some \<lparr>target = dest ft, pno = i, keep_proportion = True\<rparr>"
    if "i < length src" for i
  proof -
    from pages_loop_nth [OF loop that] obtain ft where
      "fit (src ! i) = Inr ft"
      "dst ! i = \<lparr>page_width = B5_W_PT, page_height = B5_H_PT,
                  shown = Some \<lparr>target = dest ft, pno = i, keep_proportion = True\<rparr>\<rparr>"
      by auto
    then show ?thesis
      by simp
  qed
  from src st len nth show ?thesis
    by simp
qed

theorem resize_keeps_page_count_and_order_witness:
  "fst (resize_pdf_to_b5 env0 scan_pdf scan_b5_pdf) = Inr ()
   \<and> (\<exists>dst. calls (snd (resize_pdf_to_b5 env0 scan_pdf scan_b5_pdf)) =
               [Fitz_open scan_pdf, Fitz_new, Doc_save scan_b5_pdf dst]
          \<and> length dst = 2
          \<and> map (map_option pno \<circ> shown) dst = [Some 0, Some 1])"
proof -
  have ok: "fst (resize_pdf_to_b5 env0 scan_pdf scan_b5_pdf) = Inr ()"
    by code_simp
  have src: "fitz_open env0 scan_pdf = Inr [page_a4, page_letter]"
    by (simp add: env0_def)
  from resize_keeps_page_count_and_order [OF ok] obtain src dst where
    s: "fitz_open env0 scan_pdf = Inr src" and
    c: "calls (snd (resize_pdf_to_b5 env0 scan_pdf scan_b5_pdf)) =
          [Fitz_open scan_pdf, Fitz_new, Doc_save scan_b5_pdf dst]" and
    l: "length dst = length src" and
    n: "\<forall>i < length src. \<exists>ft. fit (src ! i) = Inr ft
          \<and> shown (dst ! i) = Some \<lparr>target = dest ft, pno = i, keep_proportion = True\<rparr>"
    by blast
  from s src have src2: "src = [page_a4, page_letter]"
    by simp
  with l have l2: "length dst = 2"
    by simp
  then obtain a b where dst: "dst = [a, b]"
    by (auto simp: length_Suc_conv numeral_2_eq_2)
  from n [rule_format, of 0] src2 dst have p0: "map_option pno (shown a) = Some 0"
    by auto
  from n [rule_format, of 1] src2 dst have p1: "map_option pno (shown b) = Some 1"
    by auto
  from p0 p1 dst have "map (map_option pno \<circ> shown) dst = [Some 0, Some 1]"
    by simp
  with ok c l2 show ?thesis
    by auto
qed

text \<open>
  C4. Whenever the resize operation returns normally, every page of the document it saved
  has the B5 size, width 182 mm and height 257 mm at 72 / 25.4 points per millimetre,
  whatever the sizes of the source pages.
\<close>

theorem resize_output_pages_are_b5:
  assumes "fst (resize_pdf_to_b5 e inp outp) = Inr ()"
  shows "\<exists>dst. calls (snd (resize_pdf_to_b5 e inp outp)) = [Fitz_open inp, Fitz_new, Doc_save outp dst]
           \<and> (\<forall>p \<in> set dst. page_width p = 182 * (72 / 25.4) \<and> page_height p = 257 * (72 / 25.4))"
proof -
  from resize_success [OF assms] obtain src dst where
    loop: "pages_loop src 0 [] = Inr dst" and
    st: "snd (resize_pdf_to_b5 e inp outp) =
           \<lparr>calls = [Fitz_open inp, Fitz_new, Doc_save outp dst], open_docs = [Src_doc, Dst_doc]\<rparr>"
    by blast
  have len: "length dst = length src"
    using pages_loop_length [OF loop] by simp
  have "page_width p = B5_W_PT \<and> page_height p = B5_H_PT" if "p \<in> set dst" for p
  proof -
    from that obtain i where i: "i < length dst" and p: "p = dst ! i"
      by (auto simp: in_set_conv_nth)
    from i len have "i < length src"
      by simp
    from pages_loop_nth [OF loop this] p show ?thesis
      by auto
  qed
  then have "\<forall>p \<in> set dst. page_width p = 182 * (72 / 25.4) \<and> page_height p = 257 * (72 / 25.4)"
    by (simp add: B5_W_PT_def B5_H_PT_def B5_W_MM_def B5_H_MM_def MM_TO_PT_def)
  with st show ?thesis
    by simp
qed

theorem resize_output_pages_are_b5_witness:
  "fst (resize_pdf_to_b5 env0 scan_pdf scan_b5_pdf) = Inr ()
   \<and> width page_a4 \<noteq> width page_letter
   \<and> (\<exists>dst. calls (snd (resize_pdf_to_b5 env0 scan_pdf scan_b5_pdf)) =
               [Fitz_open scan_pdf, Fitz_new, Doc_save scan_b5_pdf dst]
          \<and> map page_width dst = [65520 / 127, 65520 / 127]
          \<and> map page_height dst = [92520 / 127, 92520 / 127])"
proof -
  have ok: "fst (resize_pdf_to_b5 env0 scan_pdf scan_b5_pdf) = Inr ()"
    by code_simp
  have c: "(case calls (snd (resize_pdf_to_b5 env0 scan_pdf scan_b5_pdf)) ! 2 of
              Doc_save q d \<Rightarrow> length d
            | _ \<Rightarrow> 0) = 2"
    by code_simp
  from resize_output_pages_are_b5 [OF ok] obtain dst where
    d: "calls (snd (resize_pdf_to_b5 env0 scan_pdf scan_b5_pdf)) =
          [Fitz_open scan_pdf, Fitz_new, Doc_save scan_b5_pdf dst]" and
    a: "\<forall>p \<in> set dst. page_width p = 182 * (72 / 25.4) \<and> page_height p = 257 * (72 / 25.4)"
    by blast
  from c d have "length dst = 2"
    by simp
  then obtain x y where dst: "dst = [x, y]"
    by (auto simp: length_Suc_conv numeral_2_eq_2)
  with a have "map page_width dst = [65520 / 127, 65520 / 127]"
    "map page_height dst = [92520 / 127, 92520 / 127]"
    by simp_all
  moreover have "width page_a4 \<noteq> width page_letter"
    by (simp add: page_a4_def page_letter_def)
  ultimately show ?thesis
    using ok d by auto
qed

text \<open>
  C9, as the code has it. The operation opens the source document (when the file opens)
  and the destination document and closes neither: whichever way it returns, every handle
  it opened is still open. Releasing them is left to the Python runtime once the objects
  are unreachable.
\<close>

theorem resize_leaves_handles_open:
  "open_docs (snd (resize_pdf_to_b5 e inp outp)) =
     (case fitz_open e inp of Inl m \<Rightarrow> [] | Inr src \<Rightarrow> [Src_doc, Dst_doc])"
proof (cases "fitz_open e inp")
  case (Inl m)
  then show ?thesis
    by (simp add: resize_not_opened)
next
  case (Inr src)
  then show ?thesis
    by (simp add: resize_opened split: sum.splits)
qed

text \<open>
  C9, as stated, fails: on a normal return (the two-page document) and on a return by
  exception (the document with a page of height zero) both handles are open when the
  operation returns.
\<close>

theorem resize_releases_handles_counterexample:
  "fst (resize_pdf_to_b5 env0 scan_pdf scan_b5_pdf) = Inr ()
   \<and> open_docs (snd (resize_pdf_to_b5 env0 scan_pdf scan_b5_pdf)) = [Src_doc, Dst_doc]
   \<and> fst (resize_pdf_to_b5 env0 flat_pdf scan_b5_pdf) = Inl ZeroDivisionError
   \<and> open_docs (snd (resize_pdf_to_b5 env0 flat_pdf scan_b5_pdf)) = [Src_doc, Dst_doc]"
  by code_simp

text \<open>
  C10. Nothing guards the two divisions of the fit: once the source document has opened,
  the operation raises \<open>ZeroDivisionError\<close> exactly when some source page has width zero
  or height zero, and then it returns without calling \<open>save\<close>; when every source page has
  strictly positive width and height it does not raise that error.
\<close>

theorem resize_zero_page_raises:
  assumes "fitz_open e inp = Inr src"
  shows "(fst (resize_pdf_to_b5 e inp outp) = Inl ZeroDivisionError
            \<longleftrightarrow> (\<exists>sp \<in> set src. width sp = 0 \<or> height sp = 0))
         \<and> ((\<exists>sp \<in> set src. width sp = 0 \<or> height sp = 0)
              \<longrightarrow> calls (snd (resize_pdf_to_b5 e inp outp)) = [Fitz_open inp, Fitz_new])
         \<and> ((\<forall>sp \<in> set src. 0 < width sp \<and> 0 < height sp)
              \<longrightarrow> fst (resize_pdf_to_b5 e inp outp) \<noteq> Inl ZeroDivisionError)"
proof (cases "\<exists>sp \<in> set src. width sp = 0 \<or> height sp = 0")
  case True
  then have "pages_loop src 0 [] = Inl ZeroDivisionError"
    by (simp add: pages_loop_raises)
  moreover from True have "\<not> (\<forall>sp \<in> set src. 0 < width sp \<and> 0 < height sp)"
    by fastforce
  ultimately show ?thesis
    using True by (simp add: resize_opened [OF assms])
next
  case False
  then have "pages_loop src 0 [] \<noteq> Inl err" for err
    by (simp add: pages_loop_raises)
  then obtain dst where "pages_loop src 0 [] = Inr dst"
    by (cases "pages_loop src 0 []") auto
  with False show ?thesis
    by (auto simp: resize_opened [OF assms] split: option.splits)
qed

theorem resize_zero_page_raises_witness:
  "fitz_open env0 flat_pdf = Inr [page_a4, page_flat]
   \<and> height page_flat = 0
   \<and> fst (resize_pdf_to_b5 env0 flat_pdf scan_b5_pdf) = Inl ZeroDivisionError
   \<and> calls (snd (resize_pdf_to_b5 env0 flat_pdf scan_b5_pdf)) = [Fitz_open flat_pdf, Fitz_new]
   \<and> fitz_open env0 scan_pdf = Inr [page_a4, page_letter]
   \<and> fst (resize_pdf_to_b5 env0 scan_pdf scan_b5_pdf) \<noteq> Inl ZeroDivisionError"
proof -
  have flat: "fitz_open env0 flat_pdf = Inr [page_a4, page_flat]"
    by (simp add: env0_def flat_pdf_def scan_pdf_def)
  have scan: "fitz_open env0 scan_pdf = Inr [page_a4, page_letter]"
    by (simp add: env0_def)
  have z: "height page_flat = 0"
    by (simp add: page_flat_def)
  then have ex: "\<exists>sp \<in> set [page_a4, page_flat]. width sp = 0 \<or> height sp = 0"
    by simp
  have pos: "\<forall>sp \<in> set [page_a4, page_letter]. 0 < width sp \<and> 0 < height sp"
    by (simp add: page_a4_def page_letter_def)
  from resize_zero_page_raises [OF flat, of scan_b5_pdf] ex
  have "fst (resize_pdf_to_b5 env0 flat_pdf scan_b5_pdf) = Inl ZeroDivisionError"
    "calls (snd (resize_pdf_to_b5 env0 flat_pdf scan_b5_pdf)) = [Fitz_open flat_pdf, Fitz_new]"
    by blast+
  moreover from resize_zero_page_raises [OF scan, of scan_b5_pdf] pos
  have "fst (resize_pdf_to_b5 env0 scan_pdf scan_b5_pdf) \<noteq> Inl ZeroDivisionError"
    by blast
  ultimately show ?thesis
    using flat scan z by blast
qed

section \<open>The interactive shell\<close>







lemma run_valid:
  assumes "input_edit w = Some p" and "path_exists e p" and "lower (suffix p) = ''.pdf''"
    and "out_path_of w p = Inr q"
  shows "run e w =
    (if path_exists e q \<and> question_answer e (name q) \<noteq> Yes
     then \<lparr>events = [Dialog (Question_overwrite (name q))], raised = None\<rparr>
     else \<lparr>events = (if path_exists e q then [Dialog (Question_overwrite (name q))] else [])
                      @ map Lib (calls (snd (resize_pdf_to_b5 e p q)))
                      @ [Dialog (case fst (resize_pdf_to_b5 e p q) of
                                   Inl err \<Rightarrow> Critical_failed err
                                 | Inr u \<Rightarrow> Information_saved q)],
           raised = None\<rparr>)"
  using assms by (simp add: run_def Let_def split: prod.splits sum.splits)


text \<open>
  The guard of line 125: a name already in the output-name field, typed by the user or put
  there for an earlier input, is kept when another input is selected.
\<close>

lemma set_input_file_keeps_name:
  "output_name_edit w \<noteq> [] \<Longrightarrow> output_name_edit (set_input_file p w) = output_name_edit w"
  by (simp add: set_input_file_def refresh_default_output_def Let_def)



text \<open>
  C6. When \<open>run\<close> is invoked with no input path set, or with an input path that does not
  exist or whose suffix, lowered, is not .pdf, it shows one validation message (the warning
  in the first case, the error in the other two) and returns: no library call is made, so
  the resize operation is not invoked and no file is written.
\<close>

theorem run_rejects_invalid_input:
  assumes "input_edit w = None
           \<or> (\<exists>p. input_edit w = Some p \<and> (\<not> path_exists e p \<or> lower (suffix p) \<noteq> ''.pdf''))"
  shows "raised (run e w) = None
         \<and> events (run e w) =
             [Dialog (if input_edit w = None then Warning_no_input else Critical_invalid_pdf)]
         \<and> (\<forall>c. Lib c \<notin> set (events (run e w)))"
  using assms by (auto simp: run_def)

theorem run_rejects_invalid_input_witness:
  "path_exists env0 notes_txt \<and> lower (suffix notes_txt) = ''.txt''
   \<and> run env0 (win_of notes_txt) = \<lparr>events = [Dialog Critical_invalid_pdf], raised = None\<rparr>
   \<and> run env0 win0 = \<lparr>events = [Dialog Warning_no_input], raised = None\<rparr>"
proof -
  have ex: "path_exists env0 notes_txt"
    by (simp add: env0_def)
  have sfx: "lower (suffix notes_txt) = ''.txt''"
    by (simp add: lower_def lower_char_def suffix_def notes_txt_def)
  have a: "input_edit (win_of notes_txt) = None
           \<or> (\<exists>p. input_edit (win_of notes_txt) = Some p
                  \<and> (\<not> path_exists env0 p \<or> lower (suffix p) \<noteq> ''.pdf''))"
    using sfx by (simp add: win_of_def)
  have b: "input_edit win0 = None
           \<or> (\<exists>p. input_edit win0 = Some p
                  \<and> (\<not> path_exists env0 p \<or> lower (suffix p) \<noteq> ''.pdf''))"
    by (simp add: win0_def)
  from run_rejects_invalid_input [OF a]
  have "run env0 (win_of notes_txt) = \<lparr>events = [Dialog Critical_invalid_pdf], raised = None\<rparr>"
    by (cases "run env0 (win_of notes_txt)") (simp add: win_of_def)
  moreover from run_rejects_invalid_input [OF b]
  have "run env0 win0 = \<lparr>events = [Dialog Warning_no_input], raised = None\<rparr>"
    by (cases "run env0 win0") (simp add: win0_def)
  ultimately show ?thesis
    using ex sfx by simp
qed

text \<open>
  C7. When \<open>run\<close> is invoked with a valid input and the output path it resolves exists, the
  first thing it does is ask whether to overwrite, before any library call; if the answer
  is not Yes it returns at once: the question is the only event, no library call is made,
  nothing is saved.
\<close>

theorem run_asks_before_overwrite:
  assumes "input_edit w = Some p" and "path_exists e p" and "lower (suffix p) = ''.pdf''"
    and "out_path_of w p = Inr q" and "path_exists e q"
  shows "(\<exists>rest. events (run e w) = Dialog (Question_overwrite (name q)) # rest)
         \<and> (question_answer e (name q) \<noteq> Yes
              \<longrightarrow> run e w = \<lparr>events = [Dialog (Question_overwrite (name q))], raised = None\<rparr>
                  \<and> (\<forall>c. Lib c \<notin> set (events (run e w))))"
  using assms(5) by (simp add: run_valid [OF assms(1-4)])

theorem run_asks_before_overwrite_witness:
  "path_exists env0 scan_pdf \<and> lower (suffix scan_pdf) = ''.pdf''
   \<and> out_path_of (win_of scan_pdf) scan_pdf = Inr scan_b5_pdf
   \<and> path_exists env0 scan_b5_pdf
   \<and> question_answer env0 (name scan_b5_pdf) = No
   \<and> run env0 (win_of scan_pdf) =
       \<lparr>events = [Dialog (Question_overwrite ''scan_B5.pdf'')], raised = None\<rparr>"
proof -
  have i: "input_edit (win_of scan_pdf) = Some scan_pdf"
    by (simp add: win_of_def)
  have ex: "path_exists env0 scan_pdf" "path_exists env0 scan_b5_pdf"
    by (simp_all add: env0_def)
  have sfx: "lower (suffix scan_pdf) = ''.pdf''"
    by (simp add: lower_def lower_char_def suffix_def scan_pdf_def)
  have out: "out_path_of (win_of scan_pdf) scan_pdf = Inr scan_b5_pdf"
    by code_simp
  have ans: "question_answer env0 (name scan_b5_pdf) = No"
    by (simp add: env0_def)
  from run_asks_before_overwrite [OF i ex(1) sfx out ex(2)] ans
  have "run env0 (win_of scan_pdf) =
          \<lparr>events = [Dialog (Question_overwrite (name scan_b5_pdf))], raised = None\<rparr>"
    by simp
  then have "run env0 (win_of scan_pdf) =
          \<lparr>events = [Dialog (Question_overwrite ''scan_B5.pdf'')], raised = None\<rparr>"
    by (simp add: scan_b5_pdf_def)
  with ex sfx out ans show ?thesis
    by simp
qed

text \<open>
  C8. Whatever exception the resize operation raises when \<open>run\<close> invokes it (a failed
  open, a failed save, a division by zero), \<open>run\<close> catches it, shows the failure message
  carrying that exception as its last event, and returns normally. The only exception
  that can leave \<open>run\<close> is raised before any library call.
\<close>

theorem run_catches_resize_errors:
  assumes "input_edit w = Some p" and "path_exists e p" and "lower (suffix p) = ''.pdf''"
    and "out_path_of w p = Inr q"
    and "path_exists e q \<longrightarrow> question_answer e (name q) = Yes"
    and "fst (resize_pdf_to_b5 e p q) = Inl err"
  shows "raised (run e w) = None
         \<and> (\<exists>pre. events (run e w)
                    = pre @ map Lib (calls (snd (resize_pdf_to_b5 e p q)))
                          @ [Dialog (Critical_failed err)])
         \<and> (\<forall>e' w' x. raised (run e' w') = Some x \<longrightarrow> events (run e' w') = [])"
proof (intro conjI allI impI)
  show "raised (run e w) = None"
    using assms(5) by (simp add: run_valid [OF assms(1-4)])
next
  show "\<exists>pre. events (run e w)
                = pre @ map Lib (calls (snd (resize_pdf_to_b5 e p q))) @ [Dialog (Critical_failed err)]"
    using assms(5,6) by (auto simp: run_valid [OF assms(1-4)])
next
  fix e' w' x
  assume "raised (run e' w') = Some x"
  then show "events (run e' w') = []"
    by (auto simp: run_def Let_def split: option.splits if_splits sum.splits prod.splits)
qed

theorem run_catches_resize_errors_witness:
  "path_exists env0 flat_pdf \<and> lower (suffix flat_pdf) = ''.pdf''
   \<and> fst (resize_pdf_to_b5 env0 flat_pdf \<lparr>parent = ''/home/user/docs'', name = ''flat_B5.pdf''\<rparr>)
       = Inl ZeroDivisionError
   \<and> run env0 (win_of flat_pdf) =
       \<lparr>events = [Lib (Fitz_open flat_pdf), Lib Fitz_new, Dialog (Critical_failed ZeroDivisionError)],
        raised = None\<rparr>"
proof -
  let ?q = "\<lparr>parent = ''/home/user/docs'', name = ''flat_B5.pdf''\<rparr>"
  have i: "input_edit (win_of flat_pdf) = Some flat_pdf"
    by (simp add: win_of_def)
  have ex: "path_exists env0 flat_pdf"
    by (simp add: env0_def)
  have sfx: "lower (suffix flat_pdf) = ''.pdf''"
    by (simp add: lower_def lower_char_def suffix_def flat_pdf_def)
  have out: "out_path_of (win_of flat_pdf) flat_pdf = Inr ?q"
    by code_simp
  have nq: "path_exists env0 ?q \<longrightarrow> question_answer env0 (name ?q) = Yes"
    by (simp add: env0_def scan_pdf_def scan_b5_pdf_def flat_pdf_def broken_pdf_def notes_txt_def)
  have r: "fst (resize_pdf_to_b5 env0 flat_pdf ?q) = Inl ZeroDivisionError"
    by code_simp
  have c: "calls (snd (resize_pdf_to_b5 env0 flat_pdf ?q)) = [Fitz_open flat_pdf, Fitz_new]"
    by code_simp
  have ev: "length (events (run env0 (win_of flat_pdf))) = 3"
    by code_simp
  from run_catches_resize_errors [OF i ex sfx out nq r] c obtain pre where
    ra: "raised (run env0 (win_of flat_pdf)) = None" and
    pre: "events (run env0 (win_of flat_pdf))
            = pre @ [Lib (Fitz_open flat_pdf), Lib Fitz_new, Dialog (Critical_failed ZeroDivisionError)]"
    by auto
  from ev pre have "pre = []"
    by simp
  with ra pre have "run env0 (win_of flat_pdf) =
       \<lparr>events = [Lib (Fitz_open flat_pdf), Lib Fitz_new, Dialog (Critical_failed ZeroDivisionError)],
        raised = None\<rparr>"
    by (cases "run env0 (win_of flat_pdf)") simp
  with ex sfx r show ?thesis
    by simp
qed

end
